theory Spec2Isabelle
  imports Main "HOL-Library.Multiset"
begin

section \<open>Data model\<close>

text \<open>
  The tables of \<^verbatim>\<open>server/src/db/schema.ts\<close> and the zod schemas of
  \<^verbatim>\<open>server/src/schema.ts\<close>. The enums of the source are string literal unions
  (\<^verbatim>\<open>z.enum(['7', '8', '9'])\<close>) and travel as strings at run time, so they are strings
  here and each schema is the list of its admitted values. Several tables share column
  names; the columns of a table carry a one-letter prefix where the name would clash
  (\<open>s_id\<close> is \<^verbatim>\<open>students.id\<close>, \<open>a_id\<close> is \<^verbatim>\<open>attendance_records.id\<close>, and so on;
  \<open>a_notes\<close> is \<^verbatim>\<open>attendance_records.notes\<close>).
  A \<^verbatim>\<open>Date\<close> is its time value, an integer; a nullable column is an \<open>option\<close>
  with \<open>None\<close> for \<^verbatim>\<open>null\<close>.
\<close>

type_synonym Date = int

definition classLevelSchema :: "string list" where
  "classLevelSchema = [''7'', ''8'', ''9'']"

definition classSectionSchema :: "string list" where
  "classSectionSchema = [''A'', ''B'', ''C'', ''D'', ''E'', ''F'', ''G'']"

definition floorSchema :: "string list" where
  "floorSchema = [''2'', ''3'', ''4'']"

definition attendanceStatusSchema :: "string list" where
  "attendanceStatusSchema = [''present'', ''sick'', ''permission'', ''absent'']"

record Teacher =
  t_id :: int
  t_name :: string
  nip :: string
  user_id :: "int option"
  t_created_at :: Date
  t_updated_at :: Date

record Student =
  s_id :: int
  s_name :: string
  class_level :: string
  class_section :: string
  s_created_at :: Date
  s_updated_at :: Date

record DutySchedule =
  d_id :: int
  teacher_id :: int
  duty_date :: Date
  d_floor :: string
  d_created_at :: Date
  d_updated_at :: Date

record AttendanceRecord =
  a_id :: int
  duty_schedule_id :: int
  student_id :: int
  status :: string
  is_late :: bool
  a_notes :: "string option"
  created_at :: Date
  updated_at :: Date

text \<open>
  The database: each table is the list of its rows in storage order, and the
  \<^verbatim>\<open>serial\<close> primary key of \<^verbatim>\<open>attendance_records\<close> is a counter holding the
  next value it hands out.
\<close>

record db =
  teachersTable :: "Teacher list"
  studentsTable :: "Student list"
  dutySchedulesTable :: "DutySchedule list"
  attendanceRecordsTable :: "AttendanceRecord list"
  attendance_records_id_seq :: int

text \<open>A thrown \<^verbatim>\<open>Error\<close> with its message. Every handler catches, logs and rethrows
  the same error, so the error a handler returns is the one raised inside it.\<close>

datatype error = Error string

section \<open>Attendance summary\<close>

record AttendanceSummary =
  total :: nat
  present :: nat
  sick :: nat
  permission :: nat
  absent :: nat
  late :: nat

text \<open>The body of the \<^verbatim>\<open>records.forEach\<close> callback of \<^verbatim>\<open>getAttendanceSummary\<close>:
  a \<^verbatim>\<open>switch\<close> on the status with no default branch, then the lateness test.\<close>

definition summary_step :: "AttendanceSummary \<Rightarrow> AttendanceRecord \<Rightarrow> AttendanceSummary" where
  "summary_step summary record =
     (let summary1 =
        (if status record = ''present'' then summary\<lparr>present := present summary + 1\<rparr>
         else if status record = ''sick'' then summary\<lparr>sick := sick summary + 1\<rparr>
         else if status record = ''permission'' then summary\<lparr>permission := permission summary + 1\<rparr>
         else if status record = ''absent'' then summary\<lparr>absent := absent summary + 1\<rparr>
         else summary)
      in if is_late record then summary1\<lparr>late := late summary1 + 1\<rparr> else summary1)"

fun summary_forEach :: "AttendanceSummary \<Rightarrow> AttendanceRecord list \<Rightarrow> AttendanceSummary" where
  "summary_forEach summary [] = summary"
| "summary_forEach summary (record # records) = summary_forEach (summary_step summary record) records"

text \<open>The summary object before the loop, then the loop.\<close>

definition summarize :: "AttendanceRecord list \<Rightarrow> AttendanceSummary" where
  "summarize records =
     summary_forEach
       \<lparr>total = length records, present = 0, sick = 0, permission = 0, absent = 0, late = 0\<rparr>
       records"

text \<open>
  A \<^verbatim>\<open>select\<close> without \<^verbatim>\<open>ORDER BY\<close> returns its rows in an order of the
  database's choosing. Where the caller keeps the rows as a list, that choice is a
  parameter of the handler: a function that rearranges the selected rows.
  \<open>row_order\<close> says that it only rearranges them.
\<close>

definition row_order :: "('row list \<Rightarrow> 'row list) \<Rightarrow> bool" where
  "row_order order \<longleftrightarrow> (\<forall>rows. mset (order rows) = mset rows)"

definition getAttendanceByDutySchedule ::
  "(AttendanceRecord list \<Rightarrow> AttendanceRecord list) \<Rightarrow> db \<Rightarrow> int
     \<Rightarrow> error + AttendanceRecord list" where
  "getAttendanceByDutySchedule rowOrder database dutyScheduleId =
     Inr (rowOrder
            (filter (\<lambda>r. duty_schedule_id r = dutyScheduleId) (attendanceRecordsTable database)))"

text \<open>The counts of the summary do not depend on the order of the rows (lemma
  \<open>summarize_row_order\<close> below), so its select is taken in the order of the table.\<close>

definition getAttendanceSummary :: "db \<Rightarrow> int \<Rightarrow> error + AttendanceSummary" where
  "getAttendanceSummary database dutyScheduleId =
     (let records = filter (\<lambda>r. duty_schedule_id r = dutyScheduleId) (attendanceRecordsTable database)
      in Inr (summarize records))"

section \<open>Floor rosters\<close>

text \<open>
  The drizzle conditions \<^verbatim>\<open>eq\<close>, \<^verbatim>\<open>inArray\<close>, \<^verbatim>\<open>and\<close>, \<^verbatim>\<open>or\<close> used by
  \<^verbatim>\<open>getStudentsByFloor\<close>, as predicates on a row: a \<^verbatim>\<open>where\<close> keeps the rows that
  satisfy its condition.
\<close>

definition eq_sql :: "('row \<Rightarrow> 'a) \<Rightarrow> 'a \<Rightarrow> 'row \<Rightarrow> bool" where
  "eq_sql column v = (\<lambda>row. column row = v)"

definition inArray :: "('row \<Rightarrow> 'a) \<Rightarrow> 'a list \<Rightarrow> 'row \<Rightarrow> bool" where
  "inArray column vs = (\<lambda>row. column row \<in> set vs)"

definition and_sql :: "('row \<Rightarrow> bool) \<Rightarrow> ('row \<Rightarrow> bool) \<Rightarrow> 'row \<Rightarrow> bool" where
  "and_sql c1 c2 = (\<lambda>row. c1 row \<and> c2 row)"

definition or_sql :: "('row \<Rightarrow> bool) \<Rightarrow> ('row \<Rightarrow> bool) \<Rightarrow> 'row \<Rightarrow> bool" where
  "or_sql c1 c2 = (\<lambda>row. c1 row \<or> c2 row)"

text \<open>The \<^verbatim>\<open>switch (floor)\<close> of \<^verbatim>\<open>getStudentsByFloor\<close>: the condition pushed for
  the floor, or the error of the default branch.\<close>

definition floorCondition :: "string \<Rightarrow> error + (Student \<Rightarrow> bool)" where
  "floorCondition floor =
     (if floor = ''2'' then
        Inr (and_sql (eq_sql class_level ''9'')
                     (inArray class_section [''A'', ''B'', ''C'', ''D'', ''E'', ''F'']))
      else if floor = ''3'' then
        Inr (or_sql
               (and_sql (eq_sql class_level ''8'')
                        (inArray class_section [''A'', ''B'', ''C'', ''D'', ''E'', ''F'']))
               (and_sql (eq_sql class_level ''9'') (eq_sql class_section ''G'')))
      else if floor = ''4'' then
        Inr (or_sql
               (and_sql (eq_sql class_level ''7'')
                        (inArray class_section [''A'', ''B'', ''C'', ''D'', ''E'', ''F'', ''G'']))
               (and_sql (eq_sql class_level ''8'') (eq_sql class_section ''G'')))
      else Inl (Error (''Invalid floor: '' @ floor @ ''. Valid floors are 2, 3, 4'')))"

definition getStudentsByFloor :: "db \<Rightarrow> string \<Rightarrow> error + Student list" where
  "getStudentsByFloor database floor =
     (case floorCondition floor of
        Inl e \<Rightarrow> Inl e
      | Inr condition \<Rightarrow> Inr (filter condition (studentsTable database)))"

text \<open>Whether the roster query of a floor selects a student row; no row is selected
  where the query throws.\<close>

definition onFloor :: "string \<Rightarrow> Student \<Rightarrow> bool" where
  "onFloor floor student =
     (case floorCondition floor of Inl e \<Rightarrow> False | Inr condition \<Rightarrow> condition student)"

text \<open>\<^verbatim>\<open>getFloorByClass\<close> of \<^verbatim>\<open>client/src/components/StudentManagement.tsx\<close>, the
  class-to-floor direction: the label shown beside a class.\<close>

definition getFloorByClass :: "string \<Rightarrow> string \<Rightarrow> string" where
  "getFloorByClass classLevel classSection =
     (let classCode = classLevel @ classSection in
      if classLevel = ''9'' \<and> classSection \<in> set [''A'', ''B'', ''C'', ''D'', ''E'', ''F'']
        then ''Lantai 2''
      else if (classLevel = ''8'' \<and> classSection \<in> set [''A'', ''B'', ''C'', ''D'', ''E'', ''F''])
               \<or> classCode = ''9G''
        then ''Lantai 3''
      else if classLevel = ''7'' \<or> classCode = ''8G''
        then ''Lantai 4''
      else ''Tidak diketahui'')"

section \<open>Creating and updating attendance records\<close>

text \<open>A field declared \<^verbatim>\<open>.nullable().optional()\<close> is absent, \<^verbatim>\<open>null\<close> or a value;
  a field declared \<^verbatim>\<open>.optional()\<close> is an \<open>option\<close> with \<open>None\<close> for absent.\<close>

datatype 'a nullish = Undefined | Null | Value 'a

record CreateAttendanceRecordInput =
  c_duty_schedule_id :: int
  c_student_id :: int
  c_status :: string
  c_is_late :: bool
  c_notes :: "string nullish"

record UpdateAttendanceRecordInput =
  u_id :: int
  u_status :: "string option"
  u_is_late :: "bool option"
  u_notes :: "string nullish"

text \<open>\<^verbatim>\<open>input.notes || null\<close>: absent, \<^verbatim>\<open>null\<close> and the empty string are falsy.\<close>

fun or_null :: "string nullish \<Rightarrow> string option" where
  "or_null Undefined = None"
| "or_null Null = None"
| "or_null (Value s) = (if s = [] then None else Some s)"

text \<open>
  A handler takes the database and returns its result with the database it leaves
  behind. \<open>now\<close> is the clock reading that \<^verbatim>\<open>defaultNow()\<close> and \<^verbatim>\<open>new Date()\<close>
  produce during the call.
\<close>

text \<open>The row that \<^verbatim>\<open>insert ... values ... returning\<close> stores and returns: the
  values of the insert, the next \<^verbatim>\<open>serial\<close> id and the two \<^verbatim>\<open>defaultNow()\<close> columns.\<close>

definition inserted_row :: "Date \<Rightarrow> CreateAttendanceRecordInput \<Rightarrow> db \<Rightarrow> AttendanceRecord" where
  "inserted_row now input database =
     \<lparr>a_id = attendance_records_id_seq database,
      duty_schedule_id = c_duty_schedule_id input,
      student_id = c_student_id input,
      status = c_status input,
      is_late = c_is_late input,
      a_notes = or_null (c_notes input),
      created_at = now,
      updated_at = now\<rparr>"

definition createAttendanceRecord ::
  "Date \<Rightarrow> CreateAttendanceRecordInput \<Rightarrow> db \<Rightarrow> (error + AttendanceRecord) \<times> db" where
  "createAttendanceRecord now input database =
     (let dutySchedule =
            filter (\<lambda>d. d_id d = c_duty_schedule_id input) (dutySchedulesTable database) in
      if length dutySchedule = 0 then (Inl (Error ''Duty schedule not found''), database)
      else
        let student = filter (\<lambda>s. s_id s = c_student_id input) (studentsTable database) in
        if length student = 0 then (Inl (Error ''Student not found''), database)
        else
          let row = inserted_row now input database
          in (Inr row,
              database\<lparr>attendanceRecordsTable := attendanceRecordsTable database @ [row],
                       attendance_records_id_seq := attendance_records_id_seq database + 1\<rparr>))"

text \<open>The \<^verbatim>\<open>updateData\<close> object: a column is set only when its key is there.\<close>

record UpdateData =
  set_status :: "string option"
  set_is_late :: "bool option"
  set_notes :: "string option option"
  set_updated_at :: Date

definition buildUpdateData :: "Date \<Rightarrow> UpdateAttendanceRecordInput \<Rightarrow> UpdateData" where
  "buildUpdateData now input =
     \<lparr>set_status = (case u_status input of None \<Rightarrow> None | Some s \<Rightarrow> Some s),
      set_is_late = (case u_is_late input of None \<Rightarrow> None | Some b \<Rightarrow> Some b),
      set_notes = (case u_notes input of
                     Undefined \<Rightarrow> None | Null \<Rightarrow> Some None | Value s \<Rightarrow> Some (Some s)),
      set_updated_at = now\<rparr>"

definition set_row :: "UpdateData \<Rightarrow> AttendanceRecord \<Rightarrow> AttendanceRecord" where
  "set_row updateData r =
     r\<lparr>status := (case set_status updateData of None \<Rightarrow> status r | Some s \<Rightarrow> s),
       is_late := (case set_is_late updateData of None \<Rightarrow> is_late r | Some b \<Rightarrow> b),
       a_notes := (case set_notes updateData of None \<Rightarrow> a_notes r | Some n \<Rightarrow> n),
       updated_at := set_updated_at updateData\<rparr>"

text \<open>The \<^verbatim>\<open>update ... where id = input.id returning\<close> rewrites every row with that id;
  \<^verbatim>\<open>result[0]\<close> is the rewritten first of them, the first row of \<^verbatim>\<open>existing\<close>.\<close>

definition updateAttendanceRecord ::
  "Date \<Rightarrow> UpdateAttendanceRecordInput \<Rightarrow> db \<Rightarrow> (error + AttendanceRecord) \<times> db" where
  "updateAttendanceRecord now input database =
     (let existing = filter (\<lambda>r. a_id r = u_id input) (attendanceRecordsTable database) in
      case existing of
        [] \<Rightarrow> (Inl (Error ''Attendance record not found''), database)
      | first # others \<Rightarrow>
          let updateData = buildUpdateData now input in
          (Inr (set_row updateData first),
           database\<lparr>attendanceRecordsTable :=
                      map (\<lambda>r. if a_id r = u_id input then set_row updateData r else r)
                          (attendanceRecordsTable database)\<rparr>))"

section \<open>Attendance report\<close>










section \<open>Saving attendance from the client\<close>

text \<open>
  The state of \<^verbatim>\<open>AttendanceManagement\<close> that saving reads and writes: the selected
  schedule, the roster and the attendance records loaded for it. The tRPC procedures
  hand their input to the handlers above.
\<close>

record ClientState =
  selectedSchedule :: "DutySchedule option"
  students :: "Student list"
  attendanceRecords :: "AttendanceRecord list"

definition loadStudentsAndAttendance ::
  "(AttendanceRecord list \<Rightarrow> AttendanceRecord list) \<Rightarrow> DutySchedule
     \<Rightarrow> ClientState \<times> db \<Rightarrow> ClientState \<times> db" where
  "loadStudentsAndAttendance rowOrder schedule state =
     (case (getStudentsByFloor (snd state) (d_floor schedule),
            getAttendanceByDutySchedule rowOrder (snd state) (d_id schedule)) of
        (Inr studentsResult, Inr attendanceResult) \<Rightarrow>
          ((fst state)\<lparr>students := studentsResult, attendanceRecords := attendanceResult\<rparr>,
           snd state)
      | _ \<Rightarrow> state)"

definition getAttendanceRecord :: "AttendanceRecord list \<Rightarrow> int \<Rightarrow> AttendanceRecord option" where
  "getAttendanceRecord records studentId =
     find (\<lambda>record. student_id record = studentId) records"

text \<open>\<^verbatim>\<open>notes || null\<close> on the optional string argument of \<^verbatim>\<open>handleAttendanceChange\<close>.\<close>

fun notes_or_null :: "string option \<Rightarrow> string nullish" where
  "notes_or_null None = Null"
| "notes_or_null (Some s) = (if s = [] then Null else Value s)"

definition handleAttendanceChange ::
  "Date \<Rightarrow> int \<Rightarrow> string \<Rightarrow> bool \<Rightarrow> string option \<Rightarrow> ClientState \<times> db \<Rightarrow> ClientState \<times> db" where
  "handleAttendanceChange now studentId status' isLate notes' state =
     (case selectedSchedule (fst state) of
        None \<Rightarrow> state
      | Some selected \<Rightarrow>
          (case getAttendanceRecord (attendanceRecords (fst state)) studentId of
             Some existingRecord \<Rightarrow>
               let updateData = \<lparr>u_id = a_id existingRecord,
                                 u_status = Some status',
                                 u_is_late = Some isLate,
                                 u_notes = notes_or_null notes'\<rparr> in
               (case updateAttendanceRecord now updateData (snd state) of
                  (Inl e, database') \<Rightarrow> (fst state, database')
                | (Inr updatedRecord, database') \<Rightarrow>
                    ((fst state)\<lparr>attendanceRecords :=
                        map (\<lambda>record. if a_id record = a_id updatedRecord
                                      then updatedRecord else record)
                            (attendanceRecords (fst state))\<rparr>,
                     database'))
           | None \<Rightarrow>
               let createData = \<lparr>c_duty_schedule_id = d_id selected,
                                 c_student_id = studentId,
                                 c_status = status',
                                 c_is_late = isLate,
                                 c_notes = notes_or_null notes'\<rparr> in
               (case createAttendanceRecord now createData (snd state) of
                  (Inl e, database') \<Rightarrow> (fst state, database')
                | (Inr newRecord, database') \<Rightarrow>
                    ((fst state)\<lparr>attendanceRecords :=
                        attendanceRecords (fst state) @ [newRecord]\<rparr>,
                     database'))))"

text \<open>One save: the clock reading and the arguments of \<^verbatim>\<open>handleAttendanceChange\<close>.\<close>

record Save =
  save_now :: Date
  save_studentId :: int
  save_status :: string
  save_isLate :: bool
  save_notes :: "string option"

fun saves :: "Save list \<Rightarrow> ClientState \<times> db \<Rightarrow> ClientState \<times> db" where
  "saves [] state = state"
| "saves (s # ss) state =
     saves ss (handleAttendanceChange (save_now s) (save_studentId s) (save_status s)
                 (save_isLate s) (save_notes s) state)"

abbreviation count_where :: "('a \<Rightarrow> bool) \<Rightarrow> 'a list \<Rightarrow> nat" where
  "count_where P xs \<equiv> length (filter P xs)"

section \<open>Sample data\<close>

text \<open>A small database in the shape of the one the handlers' tests set up: one teacher,
  one duty schedule, two students with an attendance record each, and a third record
  that is late without being present.\<close>

definition teacher1 :: Teacher where
  "teacher1 = \<lparr>t_id = 1, t_name = ''Test Teacher'', nip = ''123456789'', user_id = None,
               t_created_at = 0, t_updated_at = 0\<rparr>"

definition student1 :: Student where
  "student1 = \<lparr>s_id = 1, s_name = ''Test Student'', class_level = ''7'', class_section = ''A'',
               s_created_at = 0, s_updated_at = 0\<rparr>"

definition student2 :: Student where
  "student2 = \<lparr>s_id = 2, s_name = ''Test Student 2'', class_level = ''7'', class_section = ''B'',
               s_created_at = 0, s_updated_at = 0\<rparr>"

definition duty1 :: DutySchedule where
  "duty1 = \<lparr>d_id = 1, teacher_id = 1, duty_date = 0, d_floor = ''4'',
            d_created_at = 0, d_updated_at = 0\<rparr>"

definition record1 :: AttendanceRecord where
  "record1 = \<lparr>a_id = 1, duty_schedule_id = 1, student_id = 1, status = ''present'',
              is_late = True, a_notes = None, created_at = 0, updated_at = 0\<rparr>"

definition record2 :: AttendanceRecord where
  "record2 = \<lparr>a_id = 2, duty_schedule_id = 1, student_id = 2, status = ''absent'',
              is_late = False, a_notes = Some ''flu'', created_at = 0, updated_at = 0\<rparr>"

definition record3 :: AttendanceRecord where
  "record3 = \<lparr>a_id = 3, duty_schedule_id = 1, student_id = 3, status = ''sick'',
              is_late = True, a_notes = None, created_at = 0, updated_at = 0\<rparr>"

definition db1 :: db where
  "db1 = \<lparr>teachersTable = [teacher1], studentsTable = [student1, student2],
          dutySchedulesTable = [duty1], attendanceRecordsTable = [record1, record2],
          attendance_records_id_seq = 3\<rparr>"

definition student3 :: Student where
  "student3 = \<lparr>s_id = 3, s_name = ''Grade 9G Student'', class_level = ''9'', class_section = ''G'',
               s_created_at = 0, s_updated_at = 0\<rparr>"

definition createInput1 :: CreateAttendanceRecordInput where
  "createInput1 = \<lparr>c_duty_schedule_id = 1, c_student_id = 2, c_status = ''present'',
                   c_is_late = False, c_notes = Value []\<rparr>"

definition updateInput1 :: UpdateAttendanceRecordInput where
  "updateInput1 = \<lparr>u_id = 2, u_status = None, u_is_late = None, u_notes = Value []\<rparr>"


section \<open>Invariants of the attendance table\<close>

text \<open>
  At most one attendance record for each pair of duty schedule and student;
  what the \<^verbatim>\<open>serial\<close> primary key of the table guarantees (no id twice, every id
  below the next one handed out); and the client holding, for its selected schedule,
  the records of that schedule in some order, as it does after
  \<open>loadStudentsAndAttendance\<close>.
\<close>

definition one_per_pair :: "AttendanceRecord list \<Rightarrow> bool" where
  "one_per_pair records = distinct (map (\<lambda>r. (duty_schedule_id r, student_id r)) records)"

definition primary_key_ok :: "db \<Rightarrow> bool" where
  "primary_key_ok database \<longleftrightarrow>
     distinct (map a_id (attendanceRecordsTable database))
     \<and> (\<forall>r\<in>set (attendanceRecordsTable database). a_id r < attendance_records_id_seq database)"

definition loaded :: "ClientState \<Rightarrow> db \<Rightarrow> bool" where
  "loaded client database \<longleftrightarrow>
     (case selectedSchedule client of
        None \<Rightarrow> True
      | Some selected \<Rightarrow>
          mset (attendanceRecords client)
            = mset (filter (\<lambda>r. duty_schedule_id r = d_id selected)
                      (attendanceRecordsTable database)))"

definition save_invariant :: "ClientState \<times> db \<Rightarrow> bool" where
  "save_invariant state \<longleftrightarrow>
     one_per_pair (attendanceRecordsTable (snd state))
     \<and> primary_key_ok (snd state) \<and> loaded (fst state) (snd state)"

text \<open>A second sample: the duty schedule selected in the client, one record stored and
  loaded, and two saves, the first for the student with a record, the second for the
  student without.\<close>

definition db2 :: db where
  "db2 = \<lparr>teachersTable = [teacher1], studentsTable = [student1, student2],
          dutySchedulesTable = [duty1], attendanceRecordsTable = [record1],
          attendance_records_id_seq = 2\<rparr>"

definition client2 :: ClientState where
  "client2 = \<lparr>selectedSchedule = Some duty1, students = [student1, student2],
              attendanceRecords = [record1]\<rparr>"

definition save1 :: Save where
  "save1 = \<lparr>save_now = 5, save_studentId = 1, save_status = ''sick'', save_isLate = False,
            save_notes = Some ''flu''\<rparr>"

definition save2 :: Save where
  "save2 = \<lparr>save_now = 6, save_studentId = 2, save_status = ''present'', save_isLate = True,
            save_notes = None\<rparr>"

text \<open>A client that selected the duty schedule and holds no record of it although the
  table has one: the state between selecting a schedule and the arrival of its records,
  and the state a failed load leaves behind.\<close>

definition client3 :: ClientState where
  "client3 = \<lparr>selectedSchedule = Some duty1, students = [student1, student2],
              attendanceRecords = []\<rparr>"



section \<open>Properties of the summary\<close>

lemma summary_forEach_total:
  "total (summary_forEach s rs) = total s"
  by (induction rs arbitrary: s) (simp_all add: summary_step_def Let_def)

lemma summary_forEach_present:
  "present (summary_forEach s rs) = present s + count_where (\<lambda>r. status r = ''present'') rs"
  by (induction rs arbitrary: s) (simp_all add: summary_step_def Let_def)

lemma summary_forEach_sick:
  "sick (summary_forEach s rs) = sick s + count_where (\<lambda>r. status r = ''sick'') rs"
  by (induction rs arbitrary: s) (simp_all add: summary_step_def Let_def)

lemma summary_forEach_permission:
  "permission (summary_forEach s rs) = permission s + count_where (\<lambda>r. status r = ''permission'') rs"
  by (induction rs arbitrary: s) (simp_all add: summary_step_def Let_def)

lemma summary_forEach_absent:
  "absent (summary_forEach s rs) = absent s + count_where (\<lambda>r. status r = ''absent'') rs"
  by (induction rs arbitrary: s) (simp_all add: summary_step_def Let_def)

lemma summary_forEach_late:
  "late (summary_forEach s rs) = late s + count_where is_late rs"
  by (induction rs arbitrary: s) (simp_all add: summary_step_def Let_def)

lemmas summarize_fields =
  summary_forEach_total summary_forEach_present summary_forEach_sick
  summary_forEach_permission summary_forEach_absent summary_forEach_late

text \<open>
  C1. For every list of attendance records the summary has: \<open>total\<close> the number of
  records; \<open>present\<close>, \<open>sick\<close>, \<open>permission\<close> and \<open>absent\<close> the number of records
  with that status; \<open>late\<close> the number of records with \<open>is_late\<close> set, whatever their
  status. The summary of no records is all zero. \<open>getAttendanceSummary\<close> returns this
  summary of the records selected for the duty schedule.
\<close>

theorem getAttendanceSummary_counts:
  "total (summarize records) = length records
   \<and> present (summarize records) = count_where (\<lambda>r. status r = ''present'') records
   \<and> sick (summarize records) = count_where (\<lambda>r. status r = ''sick'') records
   \<and> permission (summarize records) = count_where (\<lambda>r. status r = ''permission'') records
   \<and> absent (summarize records) = count_where (\<lambda>r. status r = ''absent'') records
   \<and> late (summarize records) = count_where is_late records
   \<and> summarize [] = \<lparr>total = 0, present = 0, sick = 0, permission = 0, absent = 0, late = 0\<rparr>
   \<and> getAttendanceSummary database dutyScheduleId =
       Inr (summarize (filter (\<lambda>r. duty_schedule_id r = dutyScheduleId)
                              (attendanceRecordsTable database)))"
  by (simp add: summarize_def summarize_fields getAttendanceSummary_def Let_def)

theorem getAttendanceSummary_counts_witness:
  "summarize [record1, record2, record3]
     = \<lparr>total = 3, present = 1, sick = 1, permission = 0, absent = 1, late = 2\<rparr>
   \<and> late (summarize [record3]) = 1 \<and> present (summarize [record3]) = 0"
  using getAttendanceSummary_counts [of "[record1, record2, record3]"]
    getAttendanceSummary_counts [of "[record3]"]
  by (simp add: record1_def record2_def record3_def)

text \<open>
  C8. When every record carries one of the four statuses of \<open>attendanceStatusSchema\<close>,
  the four status counts of the summary add up to \<open>total\<close>; and \<open>late\<close> never
  exceeds \<open>total\<close>.
\<close>

lemma status_counts_exhaust:
  "\<forall>r\<in>set rs. status r \<in> set attendanceStatusSchema \<Longrightarrow>
   count_where (\<lambda>r. status r = ''present'') rs + count_where (\<lambda>r. status r = ''sick'') rs
   + count_where (\<lambda>r. status r = ''permission'') rs + count_where (\<lambda>r. status r = ''absent'') rs
   = length rs"
  by (induction rs) (auto simp: attendanceStatusSchema_def)

theorem getAttendanceSummary_invariants:
  assumes "\<forall>r\<in>set records. status r \<in> set attendanceStatusSchema"
  shows "present (summarize records) + sick (summarize records)
         + permission (summarize records) + absent (summarize records) = total (summarize records)
         \<and> late (summarize records) \<le> total (summarize records)"
  using status_counts_exhaust [OF assms]
  by (simp add: summarize_def summarize_fields)

theorem getAttendanceSummary_invariants_witness:
  "status record1 \<in> set attendanceStatusSchema \<and> status record2 \<in> set attendanceStatusSchema
   \<and> present (summarize [record1, record2]) + sick (summarize [record1, record2])
       + permission (summarize [record1, record2]) + absent (summarize [record1, record2])
       = total (summarize [record1, record2])
   \<and> late (summarize [record1, record2]) \<le> total (summarize [record1, record2])"
proof -
  have h: "\<forall>r\<in>set [record1, record2]. status r \<in> set attendanceStatusSchema"
    by (simp add: record1_def record2_def attendanceStatusSchema_def)
  from getAttendanceSummary_invariants [OF h] h show ?thesis by simp
qed

section \<open>Properties of the floor rosters\<close>

lemma onFloor_2:
  "onFloor ''2'' st \<longleftrightarrow>
     class_level st = ''9'' \<and> class_section st \<in> {''A'', ''B'', ''C'', ''D'', ''E'', ''F''}"
  by (simp add: onFloor_def floorCondition_def and_sql_def eq_sql_def inArray_def)

lemma onFloor_3:
  "onFloor ''3'' st \<longleftrightarrow>
     (class_level st = ''8'' \<and> class_section st \<in> {''A'', ''B'', ''C'', ''D'', ''E'', ''F''})
     \<or> (class_level st = ''9'' \<and> class_section st = ''G'')"
  by (simp add: onFloor_def floorCondition_def and_sql_def or_sql_def eq_sql_def inArray_def)

lemma onFloor_4:
  "onFloor ''4'' st \<longleftrightarrow>
     (class_level st = ''7'' \<and> class_section st \<in> {''A'', ''B'', ''C'', ''D'', ''E'', ''F'', ''G''})
     \<or> (class_level st = ''8'' \<and> class_section st = ''G'')"
  by (simp add: onFloor_def floorCondition_def and_sql_def or_sql_def eq_sql_def inArray_def)

lemma onFloor_valid_floor: "onFloor f st \<Longrightarrow> f \<in> set floorSchema"
  by (auto simp: onFloor_def floorCondition_def floorSchema_def split: if_splits)

lemma onFloor_condition: "floorCondition f = Inr c \<Longrightarrow> onFloor f = c"
  by (rule ext) (simp add: onFloor_def)

lemma floorCondition_valid: "f \<in> set floorSchema \<Longrightarrow> \<exists>c. floorCondition f = Inr c"
  by (auto simp: floorCondition_def floorSchema_def)

lemma getStudentsByFloor_roster:
  assumes "f \<in> set floorSchema"
  shows "getStudentsByFloor database f = Inr (filter (onFloor f) (studentsTable database))"
proof -
  from floorCondition_valid [OF assms] obtain c where c: "floorCondition f = Inr c" ..
  show ?thesis by (simp add: getStudentsByFloor_def c onFloor_condition [OF c])
qed

lemma onFloor_cases: "onFloor g st \<Longrightarrow> g = ''2'' \<or> g = ''3'' \<or> g = ''4''"
  using onFloor_valid_floor [of g st] by (simp add: floorSchema_def)

text \<open>
  C2. The roster query of floor 2 selects exactly grade 9, sections A to F; that of floor 3
  exactly grade 8, sections A to F, and grade 9, section G; that of floor 4 exactly grade 7,
  sections A to G, and grade 8, section G; and \<open>getStudentsByFloor\<close> returns the rows of
  the students table that its floor selects. In particular 9G is selected by floor 3 and
  no other floor, 8G and 7A by floor 4, 9A by floor 2, and \<open>getFloorByClass\<close> labels
  these classes with the same floors.
\<close>

theorem floor_catalogue:
  "(onFloor ''2'' st \<longleftrightarrow>
      class_level st = ''9'' \<and> class_section st \<in> {''A'', ''B'', ''C'', ''D'', ''E'', ''F''})
   \<and> (onFloor ''3'' st \<longleftrightarrow>
      (class_level st = ''8'' \<and> class_section st \<in> {''A'', ''B'', ''C'', ''D'', ''E'', ''F''})
      \<or> (class_level st = ''9'' \<and> class_section st = ''G''))
   \<and> (onFloor ''4'' st \<longleftrightarrow>
      (class_level st = ''7'' \<and> class_section st \<in> {''A'', ''B'', ''C'', ''D'', ''E'', ''F'', ''G''})
      \<or> (class_level st = ''8'' \<and> class_section st = ''G''))
   \<and> (f \<in> set floorSchema \<longrightarrow>
        getStudentsByFloor database f = Inr (filter (onFloor f) (studentsTable database)))
   \<and> (class_level st = ''9'' \<and> class_section st = ''G'' \<longrightarrow> (\<forall>g. onFloor g st \<longleftrightarrow> g = ''3''))
   \<and> (class_level st = ''8'' \<and> class_section st = ''G'' \<longrightarrow> (\<forall>g. onFloor g st \<longleftrightarrow> g = ''4''))
   \<and> (class_level st = ''7'' \<and> class_section st = ''A'' \<longrightarrow> (\<forall>g. onFloor g st \<longleftrightarrow> g = ''4''))
   \<and> (class_level st = ''9'' \<and> class_section st = ''A'' \<longrightarrow> (\<forall>g. onFloor g st \<longleftrightarrow> g = ''2''))
   \<and> getFloorByClass ''9'' ''G'' = ''Lantai 3'' \<and> getFloorByClass ''8'' ''G'' = ''Lantai 4''
   \<and> getFloorByClass ''7'' ''A'' = ''Lantai 4'' \<and> getFloorByClass ''9'' ''A'' = ''Lantai 2''"
proof -
  have inst: "\<And>g. onFloor g st \<longleftrightarrow>
      (g = ''2'' \<and> onFloor ''2'' st) \<or> (g = ''3'' \<and> onFloor ''3'' st) \<or> (g = ''4'' \<and> onFloor ''4'' st)"
    using onFloor_cases [of _ st] by auto
  have a: "class_level st = ''9'' \<and> class_section st = ''G'' \<longrightarrow> (\<forall>g. onFloor g st \<longleftrightarrow> g = ''3'')"
    by (subst inst) (auto simp: onFloor_2 onFloor_3 onFloor_4)
  have b: "class_level st = ''8'' \<and> class_section st = ''G'' \<longrightarrow> (\<forall>g. onFloor g st \<longleftrightarrow> g = ''4'')"
    by (subst inst) (auto simp: onFloor_2 onFloor_3 onFloor_4)
  have c: "class_level st = ''7'' \<and> class_section st = ''A'' \<longrightarrow> (\<forall>g. onFloor g st \<longleftrightarrow> g = ''4'')"
    by (subst inst) (auto simp: onFloor_2 onFloor_3 onFloor_4)
  have d: "class_level st = ''9'' \<and> class_section st = ''A'' \<longrightarrow> (\<forall>g. onFloor g st \<longleftrightarrow> g = ''2'')"
    by (subst inst) (auto simp: onFloor_2 onFloor_3 onFloor_4)
  have e: "getFloorByClass ''9'' ''G'' = ''Lantai 3'' \<and> getFloorByClass ''8'' ''G'' = ''Lantai 4''
   \<and> getFloorByClass ''7'' ''A'' = ''Lantai 4'' \<and> getFloorByClass ''9'' ''A'' = ''Lantai 2''"
    by (simp add: getFloorByClass_def)
  show ?thesis
    using onFloor_2 [of st] onFloor_3 [of st] onFloor_4 [of st]
      getStudentsByFloor_roster [of f database] a b c d e
    by blast
qed

theorem floor_catalogue_witness:
  "''4'' \<in> set floorSchema \<and> getStudentsByFloor db1 ''4'' = Inr [student1, student2]
   \<and> class_level student3 = ''9'' \<and> class_section student3 = ''G''
   \<and> onFloor ''3'' student3 \<and> \<not> onFloor ''2'' student3 \<and> \<not> onFloor ''4'' student3"
  using floor_catalogue [of student3 "''4''" db1] floor_catalogue [of student1 "''4''" db1]
    floor_catalogue [of student2 "''4''" db1]
  by (simp add: floorSchema_def db1_def student1_def student2_def student3_def)

text \<open>
  C3. For every class of the catalogue (a grade of \<open>classLevelSchema\<close> with a section of
  \<open>classSectionSchema\<close>) exactly one floor's roster query selects the class, and that
  floor is one of 2, 3, 4: no class is on two floors and none is on no floor.
\<close>

theorem floor_partition:
  assumes "class_level st \<in> set classLevelSchema" and "class_section st \<in> set classSectionSchema"
  shows "(\<exists>!f. onFloor f st) \<and> (\<forall>f. onFloor f st \<longrightarrow> f \<in> set floorSchema)
         \<and> (\<exists>!f. f \<in> set floorSchema \<and> onFloor f st)"
proof -
  have one: "(onFloor ''2'' st \<and> \<not> onFloor ''3'' st \<and> \<not> onFloor ''4'' st)
      \<or> (\<not> onFloor ''2'' st \<and> onFloor ''3'' st \<and> \<not> onFloor ''4'' st)
      \<or> (\<not> onFloor ''2'' st \<and> \<not> onFloor ''3'' st \<and> onFloor ''4'' st)"
  proof -
    from assms(1) have l: "class_level st = ''7'' \<or> class_level st = ''8'' \<or> class_level st = ''9''"
      by (simp add: classLevelSchema_def)
    from assms(2) have c: "class_section st = ''G'' \<or>
        class_section st \<in> {''A'', ''B'', ''C'', ''D'', ''E'', ''F''}"
      by (auto simp: classSectionSchema_def)
    from l c show ?thesis
      by (elim disjE) (simp_all add: onFloor_2 onFloor_3 onFloor_4, auto)
  qed
  then have "\<exists>f. onFloor f st \<and> (\<forall>g. onFloor g st \<longrightarrow> g = f)"
  proof (elim disjE conjE)
    assume "onFloor ''2'' st" "\<not> onFloor ''3'' st" "\<not> onFloor ''4'' st"
    then show ?thesis using onFloor_cases [of _ st] by (intro exI [of _ "''2''"]) blast
  next
    assume "\<not> onFloor ''2'' st" "onFloor ''3'' st" "\<not> onFloor ''4'' st"
    then show ?thesis using onFloor_cases [of _ st] by (intro exI [of _ "''3''"]) blast
  next
    assume "\<not> onFloor ''2'' st" "\<not> onFloor ''3'' st" "onFloor ''4'' st"
    then show ?thesis using onFloor_cases [of _ st] by (intro exI [of _ "''4''"]) blast
  qed
  then obtain f where f: "onFloor f st" and uniq: "\<And>g. onFloor g st \<Longrightarrow> g = f"
    by blast
  have ex1: "\<exists>!f. onFloor f st"
    using f uniq by (rule ex1I)
  have in_schema: "\<forall>f. onFloor f st \<longrightarrow> f \<in> set floorSchema"
    using onFloor_valid_floor by blast
  have "\<exists>!f. f \<in> set floorSchema \<and> onFloor f st"
  proof (rule ex1I [of _ f])
    show "f \<in> set floorSchema \<and> onFloor f st" using f onFloor_valid_floor by simp
  next
    fix g assume "g \<in> set floorSchema \<and> onFloor g st"
    then show "g = f" using uniq by simp
  qed
  with ex1 in_schema show ?thesis by simp
qed

theorem floor_partition_witness:
  "class_level student3 \<in> set classLevelSchema \<and> class_section student3 \<in> set classSectionSchema
   \<and> (\<exists>!f. onFloor f student3) \<and> (\<exists>!f. f \<in> set floorSchema \<and> onFloor f student3)"
proof -
  have l: "class_level student3 \<in> set classLevelSchema"
    by (simp add: student3_def classLevelSchema_def)
  have c: "class_section student3 \<in> set classSectionSchema"
    by (simp add: student3_def classSectionSchema_def)
  from floor_partition [OF l c] l c show ?thesis by simp
qed

text \<open>
  C5, as the code has it. The roster query of a floor other than 2, 3, 4 throws
  \<^verbatim>\<open>Invalid floor: ...\<close> and returns no roster. The class-to-floor lookup
  \<open>getFloorByClass\<close> does not fail on a class outside the catalogue: for a grade other
  than 7, 8, 9 (with a section A to G) it returns the label \<^verbatim>\<open>Tidak diketahui\<close>.
\<close>

theorem invalid_floor_or_class:
  "(f \<notin> set floorSchema \<longrightarrow>
      getStudentsByFloor database f
        = Inl (Error (''Invalid floor: '' @ f @ ''. Valid floors are 2, 3, 4'')))
   \<and> (classLevel \<notin> set classLevelSchema \<and> classSection \<in> set classSectionSchema \<longrightarrow>
        getFloorByClass classLevel classSection = ''Tidak diketahui'')"
  by (auto simp: getStudentsByFloor_def floorCondition_def floorSchema_def getFloorByClass_def
        classLevelSchema_def classSectionSchema_def append_eq_Cons_conv)

theorem invalid_floor_or_class_witness:
  "''5'' \<notin> set floorSchema
   \<and> getStudentsByFloor db1 ''5'' = Inl (Error ''Invalid floor: 5. Valid floors are 2, 3, 4'')
   \<and> ''5'' \<notin> set classLevelSchema \<and> ''A'' \<in> set classSectionSchema
   \<and> getFloorByClass ''5'' ''A'' = ''Tidak diketahui''"
  using invalid_floor_or_class [of "''5''" db1 "''5''" "''A''"]
  by (simp add: floorSchema_def classLevelSchema_def classSectionSchema_def)

text \<open>
  C5 as the specification states it fails: the lookup of grade 5, section A returns a
  label instead of failing, and grade 7 with the unknown section H is labelled floor 4.
\<close>

theorem getFloorByClass_no_error_counterexample:
  "getFloorByClass ''5'' ''A'' = ''Tidak diketahui'' \<and> getFloorByClass ''7'' ''H'' = ''Lantai 4''"
  by (simp add: getFloorByClass_def)

section \<open>Properties of creating and updating\<close>

lemma createAttendanceRecord_no_duty:
  "\<not> (\<exists>d\<in>set (dutySchedulesTable database). d_id d = c_duty_schedule_id input) \<Longrightarrow>
   createAttendanceRecord now input database = (Inl (Error ''Duty schedule not found''), database)"
  by (simp add: createAttendanceRecord_def filter_empty_conv)

lemma createAttendanceRecord_no_student:
  "\<exists>d\<in>set (dutySchedulesTable database). d_id d = c_duty_schedule_id input \<Longrightarrow>
   \<not> (\<exists>s\<in>set (studentsTable database). s_id s = c_student_id input) \<Longrightarrow>
   createAttendanceRecord now input database = (Inl (Error ''Student not found''), database)"
  by (simp add: createAttendanceRecord_def filter_empty_conv Let_def)

lemma createAttendanceRecord_ok:
  "\<exists>d\<in>set (dutySchedulesTable database). d_id d = c_duty_schedule_id input \<Longrightarrow>
   \<exists>s\<in>set (studentsTable database). s_id s = c_student_id input \<Longrightarrow>
   createAttendanceRecord now input database =
     (Inr (inserted_row now input database),
      database\<lparr>attendanceRecordsTable :=
                 attendanceRecordsTable database @ [inserted_row now input database],
               attendance_records_id_seq := attendance_records_id_seq database + 1\<rparr>)"
  by (simp add: createAttendanceRecord_def filter_empty_conv Let_def)

lemma set_row_frame:
  "a_id (set_row u r) = a_id r \<and> duty_schedule_id (set_row u r) = duty_schedule_id r
   \<and> student_id (set_row u r) = student_id r \<and> created_at (set_row u r) = created_at r"
  by (simp add: set_row_def)

lemma set_row_fields:
  "status (set_row (buildUpdateData now input) r)
     = (case u_status input of None \<Rightarrow> status r | Some s \<Rightarrow> s)
   \<and> is_late (set_row (buildUpdateData now input) r)
     = (case u_is_late input of None \<Rightarrow> is_late r | Some b \<Rightarrow> b)
   \<and> a_notes (set_row (buildUpdateData now input) r)
     = (case u_notes input of Undefined \<Rightarrow> a_notes r | Null \<Rightarrow> None | Value s \<Rightarrow> Some s)
   \<and> updated_at (set_row (buildUpdateData now input) r) = now"
  by (simp add: set_row_def buildUpdateData_def split: option.splits nullish.splits)

lemma filter_nonempty_first:
  assumes "x \<in> set xs" and "P x"
  shows "\<exists>first others. filter P xs = first # others \<and> first \<in> set xs \<and> P first"
proof -
  from assms have "filter P xs \<noteq> []" by (auto simp: filter_empty_conv)
  then obtain first others where fo: "filter P xs = first # others"
    by (cases "filter P xs") auto
  then have "first \<in> set (filter P xs)" by simp
  then have "first \<in> set xs \<and> P first" by simp
  with fo show ?thesis by blast
qed

lemma updateAttendanceRecord_found:
  assumes "r \<in> set (attendanceRecordsTable database)" and "a_id r = u_id input"
  shows "\<exists>first. first \<in> set (attendanceRecordsTable database) \<and> a_id first = u_id input
     \<and> updateAttendanceRecord now input database =
         (Inr (set_row (buildUpdateData now input) first),
          database\<lparr>attendanceRecordsTable :=
             map (\<lambda>r. if a_id r = u_id input then set_row (buildUpdateData now input) r else r)
                 (attendanceRecordsTable database)\<rparr>)"
proof -
  from filter_nonempty_first [of r "attendanceRecordsTable database" "\<lambda>r. a_id r = u_id input"] assms
  obtain first others where
    fo: "filter (\<lambda>r. a_id r = u_id input) (attendanceRecordsTable database) = first # others"
    and f: "first \<in> set (attendanceRecordsTable database)" "a_id first = u_id input"
    by blast
  have "updateAttendanceRecord now input database =
         (Inr (set_row (buildUpdateData now input) first),
          database\<lparr>attendanceRecordsTable :=
             map (\<lambda>r. if a_id r = u_id input then set_row (buildUpdateData now input) r else r)
                 (attendanceRecordsTable database)\<rparr>)"
    by (simp add: updateAttendanceRecord_def fo Let_def)
  with f show ?thesis by blast
qed

lemma updateAttendanceRecord_missing:
  "\<not> (\<exists>r\<in>set (attendanceRecordsTable database). a_id r = u_id input) \<Longrightarrow>
   updateAttendanceRecord now input database = (Inl (Error ''Attendance record not found''), database)"
  by (simp add: updateAttendanceRecord_def filter_empty_conv)

text \<open>
  C6. \<open>createAttendanceRecord\<close> with a \<open>duty_schedule_id\<close> that no duty schedule has
  throws \<^verbatim>\<open>Duty schedule not found\<close>; with an existing duty schedule and a
  \<open>student_id\<close> that no student has it throws \<^verbatim>\<open>Student not found\<close>; in both
  cases the database is left as it was. With both references valid it appends one row to
  the attendance table, built from the input, and returns that row.
\<close>

theorem createAttendanceRecord_references:
  "(\<not> (\<exists>d\<in>set (dutySchedulesTable database). d_id d = c_duty_schedule_id input) \<longrightarrow>
      createAttendanceRecord now input database
        = (Inl (Error ''Duty schedule not found''), database))
   \<and> ((\<exists>d\<in>set (dutySchedulesTable database). d_id d = c_duty_schedule_id input)
        \<and> \<not> (\<exists>s\<in>set (studentsTable database). s_id s = c_student_id input) \<longrightarrow>
      createAttendanceRecord now input database
        = (Inl (Error ''Student not found''), database))
   \<and> ((\<exists>d\<in>set (dutySchedulesTable database). d_id d = c_duty_schedule_id input)
        \<and> (\<exists>s\<in>set (studentsTable database). s_id s = c_student_id input) \<longrightarrow>
      (\<exists>row. createAttendanceRecord now input database
          = (Inr row,
             database\<lparr>attendanceRecordsTable := attendanceRecordsTable database @ [row],
                      attendance_records_id_seq := attendance_records_id_seq database + 1\<rparr>)
        \<and> a_id row = attendance_records_id_seq database
        \<and> duty_schedule_id row = c_duty_schedule_id input
        \<and> student_id row = c_student_id input
        \<and> status row = c_status input
        \<and> is_late row = c_is_late input
        \<and> a_notes row = or_null (c_notes input)
        \<and> created_at row = now \<and> updated_at row = now))"
proof (intro conjI impI)
  assume "\<not> (\<exists>d\<in>set (dutySchedulesTable database). d_id d = c_duty_schedule_id input)"
  then show "createAttendanceRecord now input database
        = (Inl (Error ''Duty schedule not found''), database)"
    by (rule createAttendanceRecord_no_duty)
next
  assume "(\<exists>d\<in>set (dutySchedulesTable database). d_id d = c_duty_schedule_id input)
        \<and> \<not> (\<exists>s\<in>set (studentsTable database). s_id s = c_student_id input)"
  then show "createAttendanceRecord now input database
        = (Inl (Error ''Student not found''), database)"
    by (simp add: createAttendanceRecord_no_student)
next
  assume a: "(\<exists>d\<in>set (dutySchedulesTable database). d_id d = c_duty_schedule_id input)
        \<and> (\<exists>s\<in>set (studentsTable database). s_id s = c_student_id input)"
  show "\<exists>row. createAttendanceRecord now input database
          = (Inr row,
             database\<lparr>attendanceRecordsTable := attendanceRecordsTable database @ [row],
                      attendance_records_id_seq := attendance_records_id_seq database + 1\<rparr>)
        \<and> a_id row = attendance_records_id_seq database
        \<and> duty_schedule_id row = c_duty_schedule_id input
        \<and> student_id row = c_student_id input
        \<and> status row = c_status input
        \<and> is_late row = c_is_late input
        \<and> a_notes row = or_null (c_notes input)
        \<and> created_at row = now \<and> updated_at row = now"
    using a by (intro exI [of _ "inserted_row now input database"])
      (simp add: createAttendanceRecord_ok, simp add: inserted_row_def)
qed

theorem createAttendanceRecord_references_witness:
  "createAttendanceRecord 7 (createInput1\<lparr>c_duty_schedule_id := 99999\<rparr>) db1
     = (Inl (Error ''Duty schedule not found''), db1)
   \<and> createAttendanceRecord 7 (createInput1\<lparr>c_student_id := 99999\<rparr>) db1
     = (Inl (Error ''Student not found''), db1)
   \<and> (\<exists>row. createAttendanceRecord 7 createInput1 db1
         = (Inr row, db1\<lparr>attendanceRecordsTable := attendanceRecordsTable db1 @ [row],
                          attendance_records_id_seq := attendance_records_id_seq db1 + 1\<rparr>)
        \<and> a_id row = attendance_records_id_seq db1
        \<and> duty_schedule_id row = c_duty_schedule_id createInput1
        \<and> student_id row = c_student_id createInput1)"
proof -
  have no_duty: "\<not> (\<exists>d\<in>set (dutySchedulesTable db1).
                    d_id d = c_duty_schedule_id (createInput1\<lparr>c_duty_schedule_id := 99999\<rparr>))"
    by (simp add: db1_def duty1_def)
  have duty: "\<exists>d\<in>set (dutySchedulesTable db1). d_id d = c_duty_schedule_id createInput1"
    by (simp add: db1_def duty1_def createInput1_def)
  have duty': "\<exists>d\<in>set (dutySchedulesTable db1).
                 d_id d = c_duty_schedule_id (createInput1\<lparr>c_student_id := 99999\<rparr>)"
    using duty by simp
  have no_student: "\<not> (\<exists>s\<in>set (studentsTable db1).
                       s_id s = c_student_id (createInput1\<lparr>c_student_id := 99999\<rparr>))"
    by (simp add: db1_def student1_def student2_def)
  have student: "\<exists>s\<in>set (studentsTable db1). s_id s = c_student_id createInput1"
    by (simp add: db1_def student1_def student2_def createInput1_def)
  from createAttendanceRecord_references [of db1 "createInput1\<lparr>c_duty_schedule_id := 99999\<rparr>" 7]
    no_duty
  have a: "createAttendanceRecord 7 (createInput1\<lparr>c_duty_schedule_id := 99999\<rparr>) db1
     = (Inl (Error ''Duty schedule not found''), db1)" by blast
  from createAttendanceRecord_references [of db1 "createInput1\<lparr>c_student_id := 99999\<rparr>" 7]
    duty' no_student
  have b: "createAttendanceRecord 7 (createInput1\<lparr>c_student_id := 99999\<rparr>) db1
     = (Inl (Error ''Student not found''), db1)" by blast
  from createAttendanceRecord_references [of db1 createInput1 7] duty student
  have c: "\<exists>row. createAttendanceRecord 7 createInput1 db1
         = (Inr row, db1\<lparr>attendanceRecordsTable := attendanceRecordsTable db1 @ [row],
                          attendance_records_id_seq := attendance_records_id_seq db1 + 1\<rparr>)
        \<and> a_id row = attendance_records_id_seq db1
        \<and> duty_schedule_id row = c_duty_schedule_id createInput1
        \<and> student_id row = c_student_id createInput1" by blast
  from a b c show ?thesis by simp
qed



text \<open>
  C10. Updating an existing attendance record leaves every row's \<open>a_id\<close>,
  \<open>duty_schedule_id\<close>, \<open>student_id\<close> and \<open>created_at\<close> as they were, leaves the
  rows with another id and the other tables untouched, and in the rows with the given id
  sets \<open>status\<close>, \<open>is_late\<close> and \<open>a_notes\<close> to the input's value when the input has
  one and keeps the previous value when it has not; \<open>updated_at\<close> becomes the time of
  the call.
\<close>

theorem updateAttendanceRecord_frame:
  assumes "r \<in> set (attendanceRecordsTable database)" and "a_id r = u_id input"
  shows "\<exists>row database'.
     updateAttendanceRecord now input database = (Inr row, database')
     \<and> teachersTable database' = teachersTable database
     \<and> studentsTable database' = studentsTable database
     \<and> dutySchedulesTable database' = dutySchedulesTable database
     \<and> attendance_records_id_seq database' = attendance_records_id_seq database
     \<and> length (attendanceRecordsTable database') = length (attendanceRecordsTable database)
     \<and> (\<forall>i < length (attendanceRecordsTable database).
          a_id (attendanceRecordsTable database' ! i) = a_id (attendanceRecordsTable database ! i)
          \<and> duty_schedule_id (attendanceRecordsTable database' ! i)
              = duty_schedule_id (attendanceRecordsTable database ! i)
          \<and> student_id (attendanceRecordsTable database' ! i)
              = student_id (attendanceRecordsTable database ! i)
          \<and> created_at (attendanceRecordsTable database' ! i)
              = created_at (attendanceRecordsTable database ! i)
          \<and> (a_id (attendanceRecordsTable database ! i) \<noteq> u_id input \<longrightarrow>
               attendanceRecordsTable database' ! i = attendanceRecordsTable database ! i)
          \<and> (a_id (attendanceRecordsTable database ! i) = u_id input \<longrightarrow>
               status (attendanceRecordsTable database' ! i)
                 = (case u_status input of
                      None \<Rightarrow> status (attendanceRecordsTable database ! i) | Some s \<Rightarrow> s)
               \<and> is_late (attendanceRecordsTable database' ! i)
                 = (case u_is_late input of
                      None \<Rightarrow> is_late (attendanceRecordsTable database ! i) | Some b \<Rightarrow> b)
               \<and> a_notes (attendanceRecordsTable database' ! i)
                 = (case u_notes input of
                      Undefined \<Rightarrow> a_notes (attendanceRecordsTable database ! i)
                    | Null \<Rightarrow> None | Value s \<Rightarrow> Some s)
               \<and> updated_at (attendanceRecordsTable database' ! i) = now))
     \<and> row \<in> set (attendanceRecordsTable database') \<and> a_id row = u_id input"
proof -
  let ?u = "buildUpdateData now input"
  let ?tab = "attendanceRecordsTable database"
  let ?tab' = "map (\<lambda>r. if a_id r = u_id input then set_row ?u r else r) ?tab"
  from updateAttendanceRecord_found [OF assms, of now]
  obtain first where f: "first \<in> set ?tab" "a_id first = u_id input"
    and upd: "updateAttendanceRecord now input database =
         (Inr (set_row ?u first), database\<lparr>attendanceRecordsTable := ?tab'\<rparr>)"
    by blast
  have row_in: "set_row ?u first \<in> set ?tab'"
    using f by (auto simp: image_iff intro!: bexI [of _ first])
  have rows: "\<forall>i < length ?tab.
          a_id (?tab' ! i) = a_id (?tab ! i)
          \<and> duty_schedule_id (?tab' ! i) = duty_schedule_id (?tab ! i)
          \<and> student_id (?tab' ! i) = student_id (?tab ! i)
          \<and> created_at (?tab' ! i) = created_at (?tab ! i)
          \<and> (a_id (?tab ! i) \<noteq> u_id input \<longrightarrow> ?tab' ! i = ?tab ! i)
          \<and> (a_id (?tab ! i) = u_id input \<longrightarrow>
               status (?tab' ! i) = (case u_status input of None \<Rightarrow> status (?tab ! i) | Some s \<Rightarrow> s)
               \<and> is_late (?tab' ! i) = (case u_is_late input of None \<Rightarrow> is_late (?tab ! i) | Some b \<Rightarrow> b)
               \<and> a_notes (?tab' ! i) = (case u_notes input of
                      Undefined \<Rightarrow> a_notes (?tab ! i) | Null \<Rightarrow> None | Value s \<Rightarrow> Some s)
               \<and> updated_at (?tab' ! i) = now)"
    using set_row_fields [of now input] by (simp add: set_row_frame)
  show ?thesis
    apply (rule exI [of _ "set_row ?u first"])
    apply (rule exI [of _ "database\<lparr>attendanceRecordsTable := ?tab'\<rparr>"])
    using upd row_in rows f by (simp add: set_row_frame)
qed

theorem updateAttendanceRecord_frame_witness:
  "record2 \<in> set (attendanceRecordsTable db1) \<and> a_id record2 = u_id updateInput1
   \<and> (\<exists>row database'. updateAttendanceRecord 7 updateInput1 db1 = (Inr row, database')
        \<and> attendanceRecordsTable database' ! 0 = record1
        \<and> status (attendanceRecordsTable database' ! 1) = ''absent''
        \<and> is_late (attendanceRecordsTable database' ! 1) = False
        \<and> student_id (attendanceRecordsTable database' ! 1) = 2
        \<and> updated_at (attendanceRecordsTable database' ! 1) = 7)"
proof -
  have r: "record2 \<in> set (attendanceRecordsTable db1)" by (simp add: db1_def)
  have i: "a_id record2 = u_id updateInput1" by (simp add: record2_def updateInput1_def)
  from updateAttendanceRecord_frame [OF r i, of 7]
  obtain row database' where upd: "updateAttendanceRecord 7 updateInput1 db1 = (Inr row, database')"
    and rows: "\<forall>i < length (attendanceRecordsTable db1).
          a_id (attendanceRecordsTable database' ! i) = a_id (attendanceRecordsTable db1 ! i)
          \<and> duty_schedule_id (attendanceRecordsTable database' ! i)
              = duty_schedule_id (attendanceRecordsTable db1 ! i)
          \<and> student_id (attendanceRecordsTable database' ! i)
              = student_id (attendanceRecordsTable db1 ! i)
          \<and> created_at (attendanceRecordsTable database' ! i)
              = created_at (attendanceRecordsTable db1 ! i)
          \<and> (a_id (attendanceRecordsTable db1 ! i) \<noteq> u_id updateInput1 \<longrightarrow>
               attendanceRecordsTable database' ! i = attendanceRecordsTable db1 ! i)
          \<and> (a_id (attendanceRecordsTable db1 ! i) = u_id updateInput1 \<longrightarrow>
               status (attendanceRecordsTable database' ! i)
                 = (case u_status updateInput1 of
                      None \<Rightarrow> status (attendanceRecordsTable db1 ! i) | Some s \<Rightarrow> s)
               \<and> is_late (attendanceRecordsTable database' ! i)
                 = (case u_is_late updateInput1 of
                      None \<Rightarrow> is_late (attendanceRecordsTable db1 ! i) | Some b \<Rightarrow> b)
               \<and> a_notes (attendanceRecordsTable database' ! i)
                 = (case u_notes updateInput1 of
                      Undefined \<Rightarrow> a_notes (attendanceRecordsTable db1 ! i)
                    | Null \<Rightarrow> None | Value s \<Rightarrow> Some s)
               \<and> updated_at (attendanceRecordsTable database' ! i) = 7)"
    by blast
  from rows have r0: "attendanceRecordsTable database' ! 0 = record1"
    by (simp add: db1_def record1_def updateInput1_def)
  from rows have "1 < length (attendanceRecordsTable db1) \<longrightarrow>
        status (attendanceRecordsTable database' ! 1) = ''absent''
        \<and> is_late (attendanceRecordsTable database' ! 1) = False
        \<and> student_id (attendanceRecordsTable database' ! 1) = 2
        \<and> updated_at (attendanceRecordsTable database' ! 1) = 7"
    by (simp add: db1_def record2_def updateInput1_def)
  then have r1: "status (attendanceRecordsTable database' ! 1) = ''absent''
        \<and> is_late (attendanceRecordsTable database' ! 1) = False
        \<and> student_id (attendanceRecordsTable database' ! 1) = 2
        \<and> updated_at (attendanceRecordsTable database' ! 1) = 7"
    by (simp add: db1_def)
  from r i upd r0 r1 show ?thesis by blast
qed

section \<open>Properties of the attendance report\<close>










lemma summarize_row_order: "mset xs = mset ys \<Longrightarrow> summarize xs = summarize ys"
proof -
  assume eq: "mset xs = mset ys"
  have c: "count_where P xs = count_where P ys" for P :: "AttendanceRecord \<Rightarrow> bool"
  proof -
    have "mset (filter P xs) = mset (filter P ys)" using eq by simp
    then show ?thesis by (rule mset_eq_length)
  qed
  have l: "length xs = length ys" using eq by (rule mset_eq_length)
  show ?thesis
    by (rule AttendanceSummary.equality)
      (simp_all add: summarize_def summarize_fields c l)
qed



lemma row_order_length: "row_order order \<Longrightarrow> length (order rows) = length rows"
  unfolding row_order_def by (metis mset_eq_length)









section \<open>Properties of saving from the client\<close>

lemma handleAttendanceChange_unselected:
  "selectedSchedule (fst state) = None \<Longrightarrow>
   handleAttendanceChange now studentId st isLate nts state = state"
  by (simp add: handleAttendanceChange_def)

lemma find_Some_member: "find P xs = Some x \<Longrightarrow> x \<in> set xs \<and> P x"
  by (induction xs) (auto split: if_splits)

lemma find_None_none: "find P xs = None \<Longrightarrow> \<forall>x\<in>set xs. \<not> P x"
  by (simp add: find_None_iff)

lemma distinct_key_eq:
  "distinct (map key xs) \<Longrightarrow> x \<in> set xs \<Longrightarrow> y \<in> set xs \<Longrightarrow> key x = key y \<Longrightarrow> x = y"
  by (meson distinct_map inj_onD)

text \<open>The update branch of a save, with the client's records loaded.\<close>

lemma handleAttendanceChange_update:
  fixes now :: Date and st :: string and isLate :: bool and nts :: "string option"
    and existingRecord :: AttendanceRecord
  defines "u \<equiv> buildUpdateData now \<lparr>u_id = a_id existingRecord, u_status = Some st,
                 u_is_late = Some isLate, u_notes = notes_or_null nts\<rparr>"
  defines "g \<equiv> (\<lambda>r. if a_id r = a_id existingRecord then set_row u r else r)"
  assumes sel: "selectedSchedule client = Some selected"
    and found: "getAttendanceRecord (attendanceRecords client) studentId = Some existingRecord"
    and inv: "save_invariant (client, database)"
  shows "handleAttendanceChange now studentId st isLate nts (client, database)
     = (client\<lparr>attendanceRecords := map g (attendanceRecords client)\<rparr>,
        database\<lparr>attendanceRecordsTable := map g (attendanceRecordsTable database)\<rparr>)"
proof -
  let ?input = "\<lparr>u_id = a_id existingRecord, u_status = Some st,
                 u_is_late = Some isLate, u_notes = notes_or_null nts\<rparr>"
  from inv sel have "mset (attendanceRecords client)
      = mset (filter (\<lambda>r. duty_schedule_id r = d_id selected) (attendanceRecordsTable database))"
    by (simp add: save_invariant_def loaded_def)
  then have loaded: "set (attendanceRecords client)
      = set (filter (\<lambda>r. duty_schedule_id r = d_id selected) (attendanceRecordsTable database))"
    by (rule mset_eq_setD)
  from inv have pk: "distinct (map a_id (attendanceRecordsTable database))"
    by (simp add: save_invariant_def primary_key_ok_def)
  from found have "existingRecord \<in> set (attendanceRecords client)"
    using find_Some_member by (fastforce simp: getAttendanceRecord_def)
  with loaded have e: "existingRecord \<in> set (attendanceRecordsTable database)" by simp
  from filter_nonempty_first [OF e, of "\<lambda>r. a_id r = a_id existingRecord"]
  obtain first others where fo:
    "filter (\<lambda>r. a_id r = a_id existingRecord) (attendanceRecordsTable database) = first # others"
    and f: "first \<in> set (attendanceRecordsTable database)" "a_id first = a_id existingRecord"
    by auto
  from distinct_key_eq [OF pk f(1) e f(2)] have first: "first = existingRecord" .
  have upd: "updateAttendanceRecord now ?input database
      = (Inr (set_row u existingRecord),
         database\<lparr>attendanceRecordsTable := map g (attendanceRecordsTable database)\<rparr>)"
    by (simp add: updateAttendanceRecord_def fo first u_def g_def Let_def)
  have local: "map (\<lambda>record. if a_id record = a_id (set_row u existingRecord)
                      then set_row u existingRecord else record) (attendanceRecords client)
      = map g (attendanceRecords client)"
  proof (rule map_cong [OF refl])
    fix r assume "r \<in> set (attendanceRecords client)"
    with loaded have r: "r \<in> set (attendanceRecordsTable database)" by simp
    show "(if a_id r = a_id (set_row u existingRecord) then set_row u existingRecord else r) = g r"
      using distinct_key_eq [OF pk r e] by (auto simp: g_def set_row_frame)
  qed
  show ?thesis
    using sel found upd local
    by (simp add: handleAttendanceChange_def Let_def)
qed


text \<open>The create branch of a save.\<close>

lemma handleAttendanceChange_create:
  fixes now :: Date and st :: string and isLate :: bool and nts :: "string option"
  defines "input \<equiv> (\<lambda>selected studentId.
             \<lparr>c_duty_schedule_id = d_id selected, c_student_id = studentId, c_status = st,
              c_is_late = isLate, c_notes = notes_or_null nts\<rparr>)"
  assumes sel: "selectedSchedule client = Some selected"
    and none: "getAttendanceRecord (attendanceRecords client) studentId = None"
  shows "handleAttendanceChange now studentId st isLate nts (client, database)
     = (if (\<exists>d\<in>set (dutySchedulesTable database). d_id d = d_id selected)
            \<and> (\<exists>s\<in>set (studentsTable database). s_id s = studentId)
        then (client\<lparr>attendanceRecords := attendanceRecords client
                        @ [inserted_row now (input selected studentId) database]\<rparr>,
              database\<lparr>attendanceRecordsTable := attendanceRecordsTable database
                        @ [inserted_row now (input selected studentId) database],
                       attendance_records_id_seq := attendance_records_id_seq database + 1\<rparr>)
        else (client, database))"
proof (cases "\<exists>d\<in>set (dutySchedulesTable database). d_id d = d_id selected")
  case False
  then have "createAttendanceRecord now (input selected studentId) database
      = (Inl (Error ''Duty schedule not found''), database)"
    by (intro createAttendanceRecord_no_duty) (simp add: input_def)
  with False sel none show ?thesis
    by (simp add: handleAttendanceChange_def input_def)
next
  case duty: True
  show ?thesis
  proof (cases "\<exists>s\<in>set (studentsTable database). s_id s = studentId")
    case False
    with duty have "createAttendanceRecord now (input selected studentId) database
        = (Inl (Error ''Student not found''), database)"
      by (intro createAttendanceRecord_no_student) (simp_all add: input_def)
    with False sel none show ?thesis
      by (simp add: handleAttendanceChange_def input_def)
  next
    case True
    with duty have "createAttendanceRecord now (input selected studentId) database
        = (Inr (inserted_row now (input selected studentId) database),
           database\<lparr>attendanceRecordsTable := attendanceRecordsTable database
                        @ [inserted_row now (input selected studentId) database],
                    attendance_records_id_seq := attendance_records_id_seq database + 1\<rparr>)"
      by (intro createAttendanceRecord_ok) (simp_all add: input_def)
    with True duty sel none show ?thesis
      by (simp add: handleAttendanceChange_def input_def)
  qed
qed

lemma save_invariant_update:
  assumes inv: "save_invariant (client, database)"
    and g: "\<And>r. a_id (g r) = a_id r \<and> duty_schedule_id (g r) = duty_schedule_id r
                  \<and> student_id (g r) = student_id r"
  shows "save_invariant (client\<lparr>attendanceRecords := map g (attendanceRecords client)\<rparr>,
           database\<lparr>attendanceRecordsTable := map g (attendanceRecordsTable database)\<rparr>)"
proof -
  have pairs: "map (\<lambda>r. (duty_schedule_id r, student_id r)) (map g rs)
      = map (\<lambda>r. (duty_schedule_id r, student_id r)) rs" for rs
    by (simp add: g)
  have ids: "map a_id (map g rs) = map a_id rs" for rs
    by (simp add: g)
  have flt: "filter (\<lambda>r. duty_schedule_id r = k) (map g rs)
      = map g (filter (\<lambda>r. duty_schedule_id r = k) rs)" for k rs
    by (simp add: filter_map comp_def g)
  from inv have 1: "one_per_pair (map g (attendanceRecordsTable database))"
    unfolding save_invariant_def one_per_pair_def pairs by simp
  from inv have 2: "distinct (map a_id (map g (attendanceRecordsTable database)))"
    unfolding save_invariant_def primary_key_ok_def ids by simp
  from inv have 3: "\<forall>r\<in>set (map g (attendanceRecordsTable database)).
      a_id r < attendance_records_id_seq database"
    by (auto simp: save_invariant_def primary_key_ok_def g)
  have 4: "loaded (client\<lparr>attendanceRecords := map g (attendanceRecords client)\<rparr>)
      (database\<lparr>attendanceRecordsTable := map g (attendanceRecordsTable database)\<rparr>)"
  proof (cases "selectedSchedule client")
    case None
    then show ?thesis by (simp add: loaded_def)
  next
    case (Some selected)
    with inv have "mset (attendanceRecords client)
        = mset (filter (\<lambda>r. duty_schedule_id r = d_id selected) (attendanceRecordsTable database))"
      by (simp add: save_invariant_def loaded_def)
    then have "mset (map g (attendanceRecords client))
        = mset (map g (filter (\<lambda>r. duty_schedule_id r = d_id selected)
                         (attendanceRecordsTable database)))"
      by (simp only: mset_map)
    with Some show ?thesis by (simp add: loaded_def flt)
  qed
  from 1 2 3 4 show ?thesis
    by (simp add: save_invariant_def primary_key_ok_def)
qed

lemma save_invariant_create:
  assumes inv: "save_invariant (client, database)"
    and sel: "selectedSchedule client = Some selected"
    and none: "getAttendanceRecord (attendanceRecords client) studentId = None"
    and row: "a_id row = attendance_records_id_seq database"
      "duty_schedule_id row = d_id selected" "student_id row = studentId"
  shows "save_invariant (client\<lparr>attendanceRecords := attendanceRecords client @ [row]\<rparr>,
           database\<lparr>attendanceRecordsTable := attendanceRecordsTable database @ [row],
                    attendance_records_id_seq := attendance_records_id_seq database + 1\<rparr>)"
proof -
  from inv sel have loaded_mset: "mset (attendanceRecords client)
      = mset (filter (\<lambda>r. duty_schedule_id r = d_id selected) (attendanceRecordsTable database))"
    by (simp add: save_invariant_def loaded_def)
  then have loaded: "set (attendanceRecords client)
      = set (filter (\<lambda>r. duty_schedule_id r = d_id selected) (attendanceRecordsTable database))"
    by (rule mset_eq_setD)
  from none have "\<forall>r\<in>set (attendanceRecords client). student_id r \<noteq> studentId"
    by (simp add: getAttendanceRecord_def find_None_iff)
  with loaded have fresh_pair:
    "\<forall>r\<in>set (attendanceRecordsTable database).
       (duty_schedule_id r, student_id r) \<noteq> (d_id selected, studentId)"
    by auto
  from inv have bound: "\<forall>r\<in>set (attendanceRecordsTable database).
      a_id r < attendance_records_id_seq database"
    by (simp add: save_invariant_def primary_key_ok_def)
  then have fresh_id: "a_id row \<notin> a_id ` set (attendanceRecordsTable database)"
    using row(1) by auto
  from inv fresh_pair row have 1: "one_per_pair (attendanceRecordsTable database @ [row])"
    by (auto simp: save_invariant_def one_per_pair_def)
  from inv fresh_id have 2: "distinct (map a_id (attendanceRecordsTable database @ [row]))"
    by (simp add: save_invariant_def primary_key_ok_def)
  from bound row(1) have 3: "\<forall>r\<in>set (attendanceRecordsTable database @ [row]).
      a_id r < attendance_records_id_seq database + 1"
    by auto
  from loaded_mset sel row(2) have 4:
    "loaded (client\<lparr>attendanceRecords := attendanceRecords client @ [row]\<rparr>)
       (database\<lparr>attendanceRecordsTable := attendanceRecordsTable database @ [row],
                 attendance_records_id_seq := attendance_records_id_seq database + 1\<rparr>)"
    by (simp add: loaded_def)
  from 1 2 3 4 show ?thesis
    by (simp add: save_invariant_def primary_key_ok_def)
qed

lemma save_invariant_step:
  assumes inv: "save_invariant state"
  shows "save_invariant (handleAttendanceChange now studentId st isLate nts state)"
proof (cases "selectedSchedule (fst state)")
  case None
  with inv show ?thesis by (simp add: handleAttendanceChange_unselected)
next
  case (Some selected)
  obtain client database where state: "state = (client, database)" by (cases state)
  with Some have sel: "selectedSchedule client = Some selected" by simp
  from inv state have inv': "save_invariant (client, database)" by simp
  show ?thesis
  proof (cases "getAttendanceRecord (attendanceRecords client) studentId")
    case (Some existingRecord)
    show ?thesis
      unfolding state handleAttendanceChange_update [OF sel Some inv']
      by (rule save_invariant_update [OF inv']) (simp add: set_row_frame)
  next
    case None
    show ?thesis
      unfolding state handleAttendanceChange_create [OF sel None]
      using inv' save_invariant_create [OF inv' sel None]
      by (simp add: inserted_row_def)
  qed
qed

lemma save_invariant_saves:
  "save_invariant state \<Longrightarrow> save_invariant (saves ss state)"
  by (induction ss arbitrary: state) (simp_all add: save_invariant_step)

lemma loadStudentsAndAttendance_loaded:
  assumes "d_floor schedule \<in> set floorSchema" and "row_order rowOrder"
  shows "loaded (fst (loadStudentsAndAttendance rowOrder schedule
                        (client\<lparr>selectedSchedule := Some schedule\<rparr>, database))) database
         \<and> snd (loadStudentsAndAttendance rowOrder schedule
                   (client\<lparr>selectedSchedule := Some schedule\<rparr>, database)) = database"
  using getStudentsByFloor_roster [OF assms(1), of database] assms(2)
  by (simp add: loadStudentsAndAttendance_def getAttendanceByDutySchedule_def loaded_def
      row_order_def)

lemma notes_or_null_stored:
  "(case notes_or_null nts of Undefined \<Rightarrow> previous | Null \<Rightarrow> None | Value s \<Rightarrow> Some s)
     = (case nts of None \<Rightarrow> None | Some n \<Rightarrow> if n = [] then None else Some n)"
  by (cases nts) simp_all

lemma or_null_notes_or_null:
  "or_null (notes_or_null nts)
     = (case nts of None \<Rightarrow> None | Some n \<Rightarrow> if n = [] then None else Some n)"
  by (cases nts) simp_all

text \<open>
  C7, as the code has it. Start from a database with at most one attendance record for
  each pair of duty schedule and student, whose primary key is sound, and a client that
  holds the records of its selected schedule, in any order. Then after any sequence of
  saves there is still at most one record for each pair. And a single save, with a
  schedule selected, does this. When the lookup finds a record for the student, that
  record is in the table for the selected schedule and the student; the save leaves the
  ids and pairs of all rows as they were, changes no row with another id, and writes the
  saved status, lateness and notes (empty notes as \<^verbatim>\<open>null\<close>) and the time into the
  row with that id. When the lookup finds none, the table has no record for the selected
  schedule and the student; the save appends one row for that pair with the saved values
  when the schedule and the student exist, and leaves the table as it was when they do
  not.
\<close>

theorem saves_keep_one_per_pair:
  assumes "one_per_pair (attendanceRecordsTable database)"
    and "primary_key_ok database"
    and "loaded client database"
    and "after = attendanceRecordsTable
                   (snd (handleAttendanceChange now studentId st isLate nts (client, database)))"
    and "stored = (case nts of None \<Rightarrow> None | Some n \<Rightarrow> if n = [] then None else Some n)"
  shows "one_per_pair (attendanceRecordsTable (snd (saves ss (client, database))))
     \<and> (selectedSchedule client = Some selected \<longrightarrow>
          (case getAttendanceRecord (attendanceRecords client) studentId of
             Some existingRecord \<Rightarrow>
               existingRecord \<in> set (attendanceRecordsTable database)
               \<and> duty_schedule_id existingRecord = d_id selected
               \<and> student_id existingRecord = studentId
               \<and> map (\<lambda>r. (a_id r, duty_schedule_id r, student_id r)) after
                   = map (\<lambda>r. (a_id r, duty_schedule_id r, student_id r))
                       (attendanceRecordsTable database)
               \<and> (\<forall>r\<in>set after. a_id r \<noteq> a_id existingRecord \<longrightarrow>
                     r \<in> set (attendanceRecordsTable database))
               \<and> (\<forall>r\<in>set after. a_id r = a_id existingRecord \<longrightarrow>
                     status r = st \<and> is_late r = isLate \<and> a_notes r = stored
                     \<and> updated_at r = now)
           | None \<Rightarrow>
               (\<forall>r\<in>set (attendanceRecordsTable database).
                  \<not> (duty_schedule_id r = d_id selected \<and> student_id r = studentId))
               \<and> (if (\<exists>d\<in>set (dutySchedulesTable database). d_id d = d_id selected)
                      \<and> (\<exists>s\<in>set (studentsTable database). s_id s = studentId)
                   then \<exists>row. after = attendanceRecordsTable database @ [row]
                          \<and> a_id row = attendance_records_id_seq database
                          \<and> duty_schedule_id row = d_id selected
                          \<and> student_id row = studentId
                          \<and> status row = st \<and> is_late row = isLate \<and> a_notes row = stored
                   else after = attendanceRecordsTable database)))"
proof (intro conjI impI)
  from assms(1-3) have inv: "save_invariant (client, database)"
    by (simp add: save_invariant_def)
  from save_invariant_saves [OF inv, of ss]
  show "one_per_pair (attendanceRecordsTable (snd (saves ss (client, database))))"
    by (simp add: save_invariant_def)
  assume sel: "selectedSchedule client = Some selected"
  with assms(3) have "mset (attendanceRecords client)
      = mset (filter (\<lambda>r. duty_schedule_id r = d_id selected) (attendanceRecordsTable database))"
    by (simp add: loaded_def)
  then have loaded: "set (attendanceRecords client)
      = set (filter (\<lambda>r. duty_schedule_id r = d_id selected) (attendanceRecordsTable database))"
    by (rule mset_eq_setD)
  show "case getAttendanceRecord (attendanceRecords client) studentId of
             Some existingRecord \<Rightarrow>
               existingRecord \<in> set (attendanceRecordsTable database)
               \<and> duty_schedule_id existingRecord = d_id selected
               \<and> student_id existingRecord = studentId
               \<and> map (\<lambda>r. (a_id r, duty_schedule_id r, student_id r)) after
                   = map (\<lambda>r. (a_id r, duty_schedule_id r, student_id r))
                       (attendanceRecordsTable database)
               \<and> (\<forall>r\<in>set after. a_id r \<noteq> a_id existingRecord \<longrightarrow>
                     r \<in> set (attendanceRecordsTable database))
               \<and> (\<forall>r\<in>set after. a_id r = a_id existingRecord \<longrightarrow>
                     status r = st \<and> is_late r = isLate \<and> a_notes r = stored
                     \<and> updated_at r = now)
           | None \<Rightarrow>
               (\<forall>r\<in>set (attendanceRecordsTable database).
                  \<not> (duty_schedule_id r = d_id selected \<and> student_id r = studentId))
               \<and> (if (\<exists>d\<in>set (dutySchedulesTable database). d_id d = d_id selected)
                      \<and> (\<exists>s\<in>set (studentsTable database). s_id s = studentId)
                   then \<exists>row. after = attendanceRecordsTable database @ [row]
                          \<and> a_id row = attendance_records_id_seq database
                          \<and> duty_schedule_id row = d_id selected
                          \<and> student_id row = studentId
                          \<and> status row = st \<and> is_late row = isLate \<and> a_notes row = stored
                   else after = attendanceRecordsTable database)"
  proof (cases "getAttendanceRecord (attendanceRecords client) studentId")
    case (Some existingRecord)
    let ?input = "\<lparr>u_id = a_id existingRecord, u_status = Some st,
                 u_is_late = Some isLate, u_notes = notes_or_null nts\<rparr>"
    from Some have "existingRecord \<in> set (attendanceRecords client) \<and> student_id existingRecord = studentId"
      using find_Some_member [of "\<lambda>record. student_id record = studentId"]
      by (simp add: getAttendanceRecord_def)
    with loaded have e: "existingRecord \<in> set (attendanceRecordsTable database)"
      "duty_schedule_id existingRecord = d_id selected" "student_id existingRecord = studentId"
      by simp_all
    have after: "after = map (\<lambda>r. if a_id r = a_id existingRecord
        then set_row (buildUpdateData now ?input) r else r)
        (attendanceRecordsTable database)"
      unfolding assms(4) handleAttendanceChange_update [OF sel Some inv] by simp
    have keys: "map (\<lambda>r. (a_id r, duty_schedule_id r, student_id r)) after
                   = map (\<lambda>r. (a_id r, duty_schedule_id r, student_id r))
                       (attendanceRecordsTable database)"
      unfolding after by (simp add: set_row_frame)
    have others: "\<forall>r\<in>set after. a_id r \<noteq> a_id existingRecord \<longrightarrow>
                     r \<in> set (attendanceRecordsTable database)"
      unfolding after by (auto simp: set_row_frame)
    have fields: "status (set_row (buildUpdateData now ?input) r) = st
        \<and> is_late (set_row (buildUpdateData now ?input) r) = isLate
        \<and> a_notes (set_row (buildUpdateData now ?input) r) = stored
        \<and> updated_at (set_row (buildUpdateData now ?input) r) = now" for r
      using set_row_fields [of now ?input r]
      by (simp add: notes_or_null_stored assms(5))
    have written: "\<forall>r\<in>set after. a_id r = a_id existingRecord \<longrightarrow>
                     status r = st \<and> is_late r = isLate \<and> a_notes r = stored
                     \<and> updated_at r = now"
      unfolding after using fields by (auto simp: set_row_frame)
    from e keys others written show ?thesis by (simp add: Some)
  next
    case None
    then have "\<forall>r\<in>set (attendanceRecords client). student_id r \<noteq> studentId"
      by (simp add: getAttendanceRecord_def find_None_iff)
    with loaded have absent: "\<forall>r\<in>set (attendanceRecordsTable database).
                  \<not> (duty_schedule_id r = d_id selected \<and> student_id r = studentId)"
      by auto
    have "if (\<exists>d\<in>set (dutySchedulesTable database). d_id d = d_id selected)
                      \<and> (\<exists>s\<in>set (studentsTable database). s_id s = studentId)
                   then \<exists>row. after = attendanceRecordsTable database @ [row]
                          \<and> a_id row = attendance_records_id_seq database
                          \<and> duty_schedule_id row = d_id selected
                          \<and> student_id row = studentId
                          \<and> status row = st \<and> is_late row = isLate \<and> a_notes row = stored
                   else after = attendanceRecordsTable database"
      unfolding assms(4) handleAttendanceChange_create [OF sel None]
      by (simp add: inserted_row_def or_null_notes_or_null assms(5))
    with absent show ?thesis by (simp add: None)
  qed
qed

theorem saves_keep_one_per_pair_witness:
  "one_per_pair (attendanceRecordsTable db2) \<and> primary_key_ok db2 \<and> loaded client2 db2
   \<and> one_per_pair (attendanceRecordsTable (snd (saves [save1, save2, save2] (client2, db2))))
   \<and> map (\<lambda>r. (a_id r, duty_schedule_id r, student_id r, status r))
        (attendanceRecordsTable (snd (saves [save1, save2, save2] (client2, db2))))
      = [(1, 1, 1, ''sick''), (2, 1, 2, ''present'')]"
proof -
  have h1: "one_per_pair (attendanceRecordsTable db2)"
    by (simp add: one_per_pair_def db2_def)
  have h2: "primary_key_ok db2"
    by (simp add: primary_key_ok_def db2_def record1_def)
  have h3: "loaded client2 db2"
    by (simp add: loaded_def client2_def db2_def record1_def duty1_def)
  note concl = saves_keep_one_per_pair
    [OF h1 h2 h3 refl refl, of "[save1, save2, save2]", THEN conjunct1]
  have run: "map (\<lambda>r. (a_id r, duty_schedule_id r, student_id r, status r))
        (attendanceRecordsTable (snd (saves [save1, save2, save2] (client2, db2))))
      = [(1, 1, 1, ''sick''), (2, 1, 2, ''present'')]"
    by (simp add: save1_def save2_def client2_def db2_def handleAttendanceChange_def
      getAttendanceRecord_def updateAttendanceRecord_def createAttendanceRecord_def
      inserted_row_def buildUpdateData_def set_row_def Let_def
      record1_def duty1_def student1_def student2_def)
  from h1 h2 h3 concl run show ?thesis by simp
qed

text \<open>
  C7 without the condition on the client fails: the lookup reads the client's list, not
  the table. The table holds one record for duty schedule 1 and student 1 and the client,
  with that schedule selected, holds none; one save for student 1 then creates a second
  record for the pair.
\<close>

theorem stale_client_duplicate_counterexample:
  "one_per_pair (attendanceRecordsTable db2) \<and> primary_key_ok db2
   \<and> map (\<lambda>r. (duty_schedule_id r, student_id r))
        (attendanceRecordsTable (snd (saves [save1] (client3, db2)))) = [(1, 1), (1, 1)]
   \<and> \<not> one_per_pair (attendanceRecordsTable (snd (saves [save1] (client3, db2))))"
proof -
  have h1: "one_per_pair (attendanceRecordsTable db2)"
    by (simp add: one_per_pair_def db2_def)
  have h2: "primary_key_ok db2"
    by (simp add: primary_key_ok_def db2_def record1_def)
  have run: "map (\<lambda>r. (duty_schedule_id r, student_id r))
        (attendanceRecordsTable (snd (saves [save1] (client3, db2)))) = [(1, 1), (1, 1)]"
    by (simp add: save1_def client3_def db2_def handleAttendanceChange_def
      getAttendanceRecord_def createAttendanceRecord_def inserted_row_def Let_def
      record1_def duty1_def student1_def student2_def)
  then have "\<not> one_per_pair (attendanceRecordsTable (snd (saves [save1] (client3, db2))))"
    by (simp add: one_per_pair_def)
  with h1 h2 run show ?thesis by simp
qed

end
